theory Spec2Isabelle
  imports Main "HOL-Library.Word"
begin

unbundle bit_operations_syntax

section \<open>The Windows wakelock plugin (windows/runner/wakelock\_plugin.cpp)\<close>

subsection \<open>Execution-state flags\<close>

text \<open>
  \<^verbatim>\<open>SetThreadExecutionState\<close> takes an \<^verbatim>\<open>EXECUTION_STATE\<close>, a 32-bit
  \<^verbatim>\<open>DWORD\<close>. The three flag macros the plugin uses are declared by
  \<^verbatim>\<open><windows.h>\<close>, which is not among the plugin's sources.
\<close>

type_synonym EXECUTION_STATE = "32 word"

text \<open>
  Modelled from the spec: the macros \<^verbatim>\<open>ES_SYSTEM_REQUIRED\<close>,
  \<^verbatim>\<open>ES_DISPLAY_REQUIRED\<close> and \<^verbatim>\<open>ES_CONTINUOUS\<close> are missing from the
  sources (they come from the Windows SDK header). The spec names them as three separate
  flags, "continuous", "display-required" and "system-required"; the values are the ones
  the SDK header gives them.
\<close>

definition ES_SYSTEM_REQUIRED :: EXECUTION_STATE where
  "ES_SYSTEM_REQUIRED = 0x00000001"

definition ES_DISPLAY_REQUIRED :: EXECUTION_STATE where
  "ES_DISPLAY_REQUIRED = 0x00000002"

definition ES_CONTINUOUS :: EXECUTION_STATE where
  "ES_CONTINUOUS = 0x80000000"

subsection \<open>Process state\<close>

text \<open>
  The plugin keeps one file-level \<^verbatim>\<open>static bool is_wakelock_enabled = false\<close>.
  Its only effect on the outside world is the call of \<^verbatim>\<open>SetThreadExecutionState\<close>;
  the arguments of these calls are recorded in \<open>execution_state_calls\<close>, oldest first.
\<close>

record process_state =
  is_wakelock_enabled :: bool
  execution_state_calls :: "EXECUTION_STATE list"

definition initial_state :: process_state where
  "initial_state = \<lparr>is_wakelock_enabled = False, execution_state_calls = []\<rparr>"

text \<open>The OS call: the plugin ignores the value it returns, so only the request is kept.\<close>

definition SetThreadExecutionState :: "EXECUTION_STATE \<Rightarrow> process_state \<Rightarrow> process_state" where
  "SetThreadExecutionState esFlags s =
     s\<lparr>execution_state_calls := execution_state_calls s @ [esFlags]\<rparr>"

subsection \<open>EnableWakelock and DisableWakelock\<close>

definition EnableWakelock :: "process_state \<Rightarrow> process_state" where
  "EnableWakelock s =
     (if \<not> is_wakelock_enabled s then
        (let s1 = SetThreadExecutionState
                    (ES_CONTINUOUS OR ES_DISPLAY_REQUIRED OR ES_SYSTEM_REQUIRED) s
         in s1\<lparr>is_wakelock_enabled := True\<rparr>)
      else s)"

definition DisableWakelock :: "process_state \<Rightarrow> process_state" where
  "DisableWakelock s =
     (if is_wakelock_enabled s then
        (let s1 = SetThreadExecutionState ES_CONTINUOUS s
         in s1\<lparr>is_wakelock_enabled := False\<rparr>)
      else s)"

text \<open>The destructor \<^verbatim>\<open>~WakelockPlugin\<close> has one statement, the call of
  \<^verbatim>\<open>DisableWakelock\<close>.\<close>

definition WakelockPlugin_destructor :: "process_state \<Rightarrow> process_state" where
  "WakelockPlugin_destructor s = DisableWakelock s"

subsection \<open>The method-call handler\<close>

text \<open>
  \<^verbatim>\<open>std::string::compare(const char*)\<close>: the characters are compared as unsigned
  bytes from the left, a proper prefix is smaller. The standard fixes the sign of the
  result only, so the model returns \<open>-1\<close>, \<open>0\<close> or \<open>1\<close>.
\<close>

fun string_compare :: "string \<Rightarrow> string \<Rightarrow> int" where
  "string_compare [] [] = 0"
| "string_compare [] (y # ys) = - 1"
| "string_compare (x # xs) [] = 1"
| "string_compare (x # xs) (y # ys) =
     (if (of_char x :: nat) < of_char y then - 1
      else if (of_char y :: nat) < of_char x then 1
      else string_compare xs ys)"

text \<open>
  \<^verbatim>\<open>flutter::EncodableValue\<close> is a variant of the Flutter library; the handler builds
  only \<^verbatim>\<open>EncodableValue(true)\<close>. The alternatives below are the ones without
  floating point.
\<close>

datatype EncodableValue =
    EncodableNull
  | EncodableBool bool
  | EncodableInt int
  | EncodableString string
  | EncodableList "EncodableValue list"
  | EncodableMap "(EncodableValue \<times> EncodableValue) list"

text \<open>A \<^verbatim>\<open>flutter::MethodCall\<close>: the method name and the arguments, which may be
  absent (a null pointer).\<close>

record MethodCall =
  method_name :: string
  arguments :: "EncodableValue option"

text \<open>What the handler does with its \<^verbatim>\<open>MethodResult\<close>: every path calls exactly
  one of its methods, once. \<^verbatim>\<open>Error\<close> is never called by this plugin.\<close>

datatype MethodResult =
    Success EncodableValue
  | Error string string
  | NotImplemented

definition HandleMethodCall :: "MethodCall \<Rightarrow> process_state \<Rightarrow> MethodResult \<times> process_state" where
  "HandleMethodCall method_call s =
     (if string_compare (method_name method_call) ''enableWindows'' = 0 then
        (let s1 = EnableWakelock s in (Success (EncodableBool True), s1))
      else if string_compare (method_name method_call) ''disableWindows'' = 0 then
        (let s1 = DisableWakelock s in (Success (EncodableBool True), s1))
      else (NotImplemented, s))"

subsection \<open>Runs of the plugin\<close>

text \<open>A sequence of direct calls of the two operations.\<close>

datatype wakelock_call = Enable | Disable

fun perform :: "wakelock_call \<Rightarrow> process_state \<Rightarrow> process_state" where
  "perform Enable s = EnableWakelock s"
| "perform Disable s = DisableWakelock s"

fun perform_all :: "wakelock_call list \<Rightarrow> process_state \<Rightarrow> process_state" where
  "perform_all [] s = s"
| "perform_all (c # cs) s = perform_all cs (perform c s)"

text \<open>The request each operation passes to the OS when it issues one.\<close>

fun request_of :: "wakelock_call \<Rightarrow> EXECUTION_STATE" where
  "request_of Enable = ES_CONTINUOUS OR ES_DISPLAY_REQUIRED OR ES_SYSTEM_REQUIRED"
| "request_of Disable = ES_CONTINUOUS"

text \<open>
  What can happen to the process from outside: the host delivers a method call on the
  channel, or it destroys the plugin instance. The flag is a file-level static, so it
  survives the instance; a later instance starts from the state the destructor left.
\<close>

datatype plugin_event = Request MethodCall | Destroy

fun step :: "plugin_event \<Rightarrow> process_state \<Rightarrow> process_state" where
  "step (Request method_call) s = snd (HandleMethodCall method_call s)"
| "step Destroy s = WakelockPlugin_destructor s"

fun run :: "plugin_event list \<Rightarrow> process_state \<Rightarrow> process_state" where
  "run [] s = s"
| "run (e # es) s = run es (step e s)"

text \<open>The most recent OS request, if any has been issued.\<close>

definition last_request :: "process_state \<Rightarrow> EXECUTION_STATE option" where
  "last_request s =
     (if execution_state_calls s = [] then None else Some (last (execution_state_calls s)))"

text \<open>
  Modelled from the spec: the execution state the OS holds before the plugin's first call
  is not in the sources. The spec takes "released" as the initial state and calls the
  continuous-only request "the default continuous execution state"; the comment in
  \<^verbatim>\<open>DisableWakelock\<close> says that its call restores the default behaviour. So the
  request an observer of the OS sees in force is the most recent one, and
  \<^verbatim>\<open>ES_CONTINUOUS\<close> while none has been issued.
\<close>

definition observable_request :: "process_state \<Rightarrow> EXECUTION_STATE" where
  "observable_request s =
     (case last_request s of None \<Rightarrow> ES_CONTINUOUS | Some r \<Rightarrow> r)"

text \<open>A request asks for sleep prevention when it carries the display-required or the
  system-required flag.\<close>

definition requests_sleep_prevention :: "EXECUTION_STATE \<Rightarrow> bool" where
  "requests_sleep_prevention r \<longleftrightarrow> r AND (ES_DISPLAY_REQUIRED OR ES_SYSTEM_REQUIRED) \<noteq> 0"

text \<open>
  The invariant of the process state: while the flag is set the last request is the one
  of \<^verbatim>\<open>EnableWakelock\<close>; while it is clear either nothing has been requested yet or
  the last request is the one of \<^verbatim>\<open>DisableWakelock\<close>.
\<close>

definition flag_tracks_requests :: "process_state \<Rightarrow> bool" where
  "flag_tracks_requests s \<longleftrightarrow>
     (if is_wakelock_enabled s
      then last_request s = Some (ES_CONTINUOUS OR ES_DISPLAY_REQUIRED OR ES_SYSTEM_REQUIRED)
      else last_request s = None \<or> last_request s = Some ES_CONTINUOUS)"

section \<open>Auxiliary facts\<close>

lemma string_compare_eq_0_iff: "string_compare xs ys = 0 \<longleftrightarrow> xs = ys"
  by (induction xs ys rule: string_compare.induct) auto

lemma enable_request_value:
  "ES_CONTINUOUS OR ES_DISPLAY_REQUIRED OR ES_SYSTEM_REQUIRED = 0x80000003"
  by (simp add: ES_CONTINUOUS_def ES_DISPLAY_REQUIRED_def ES_SYSTEM_REQUIRED_def)

lemma enable_request_prevents_sleep:
  "requests_sleep_prevention (ES_CONTINUOUS OR ES_DISPLAY_REQUIRED OR ES_SYSTEM_REQUIRED)"
  by (simp add: requests_sleep_prevention_def ES_CONTINUOUS_def ES_DISPLAY_REQUIRED_def
      ES_SYSTEM_REQUIRED_def)

lemma disable_request_allows_sleep: "\<not> requests_sleep_prevention ES_CONTINUOUS"
  by (simp add: requests_sleep_prevention_def ES_CONTINUOUS_def ES_DISPLAY_REQUIRED_def
      ES_SYSTEM_REQUIRED_def)

lemma EnableWakelock_flag [simp]: "is_wakelock_enabled (EnableWakelock s)"
  by (simp add: EnableWakelock_def SetThreadExecutionState_def)

lemma DisableWakelock_flag [simp]: "\<not> is_wakelock_enabled (DisableWakelock s)"
  by (simp add: DisableWakelock_def SetThreadExecutionState_def)

lemma EnableWakelock_calls:
  "execution_state_calls (EnableWakelock s) =
     execution_state_calls s @
       (if is_wakelock_enabled s then []
        else [ES_CONTINUOUS OR ES_DISPLAY_REQUIRED OR ES_SYSTEM_REQUIRED])"
  by (simp add: EnableWakelock_def SetThreadExecutionState_def)

lemma DisableWakelock_calls:
  "execution_state_calls (DisableWakelock s) =
     execution_state_calls s @ (if is_wakelock_enabled s then [ES_CONTINUOUS] else [])"
  by (simp add: DisableWakelock_def SetThreadExecutionState_def)

lemma EnableWakelock_held [simp]: "is_wakelock_enabled s \<Longrightarrow> EnableWakelock s = s"
  by (simp add: EnableWakelock_def)

lemma DisableWakelock_released [simp]: "\<not> is_wakelock_enabled s \<Longrightarrow> DisableWakelock s = s"
  by (simp add: DisableWakelock_def)

lemma HandleMethodCall_state:
  "snd (HandleMethodCall c s) =
     (if method_name c = ''enableWindows'' then EnableWakelock s
      else if method_name c = ''disableWindows'' then DisableWakelock s
      else s)"
  by (simp add: HandleMethodCall_def string_compare_eq_0_iff Let_def)

lemma step_cases:
  "step e s = s \<or> step e s = EnableWakelock s \<or> step e s = DisableWakelock s"
  by (cases e) (simp_all add: HandleMethodCall_state WakelockPlugin_destructor_def)

lemma flag_tracks_requests_initial: "flag_tracks_requests initial_state"
  by (simp add: flag_tracks_requests_def initial_state_def last_request_def)

lemma flag_tracks_requests_Enable:
  "flag_tracks_requests s \<Longrightarrow> flag_tracks_requests (EnableWakelock s)"
  by (cases "is_wakelock_enabled s")
    (simp_all add: flag_tracks_requests_def last_request_def EnableWakelock_calls)

lemma flag_tracks_requests_Disable:
  "flag_tracks_requests s \<Longrightarrow> flag_tracks_requests (DisableWakelock s)"
  by (cases "is_wakelock_enabled s")
    (simp_all add: flag_tracks_requests_def last_request_def DisableWakelock_calls)

lemma flag_tracks_requests_step:
  "flag_tracks_requests s \<Longrightarrow> flag_tracks_requests (step e s)"
  using step_cases [of e s] flag_tracks_requests_Enable flag_tracks_requests_Disable
  by auto

lemma flag_tracks_requests_run:
  "flag_tracks_requests s \<Longrightarrow> flag_tracks_requests (run es s)"
  by (induction es arbitrary: s) (simp_all add: flag_tracks_requests_step)

lemma flag_tracks_requests_perform_all:
  "flag_tracks_requests s \<Longrightarrow> flag_tracks_requests (perform_all cs s)"
proof (induction cs arbitrary: s)
  case Nil
  then show ?case by simp
next
  case (Cons c cs)
  have "flag_tracks_requests (perform c s)"
    using Cons.prems
    by (cases c) (simp_all add: flag_tracks_requests_Enable flag_tracks_requests_Disable)
  then show ?case by (simp add: Cons.IH)
qed

lemma perform_all_append: "perform_all (xs @ ys) s = perform_all ys (perform_all xs s)"
  by (induction xs arbitrary: s) simp_all

lemma perform_twice: "perform c (perform c s) = perform c s"
  by (cases c) simp_all

text \<open>Only \<open>Enable\<close> can issue the first request.\<close>

lemma perform_all_no_Enable:
  "Enable \<notin> set cs \<Longrightarrow> \<not> is_wakelock_enabled s \<Longrightarrow> perform_all cs s = s"
proof (induction cs arbitrary: s)
  case Nil
  then show ?case by simp
next
  case (Cons c cs)
  then have "c = Disable" by (cases c) simp_all
  with Cons show ?case by simp
qed

lemma calls_grow_perform:
  "execution_state_calls s \<noteq> [] \<Longrightarrow> execution_state_calls (perform c s) \<noteq> []"
  by (cases c) (simp_all add: EnableWakelock_calls DisableWakelock_calls)

lemma calls_grow_perform_all:
  "execution_state_calls s \<noteq> [] \<Longrightarrow> execution_state_calls (perform_all cs s) \<noteq> []"
  by (induction cs arbitrary: s) (simp_all add: calls_grow_perform)

lemma perform_all_some_Enable:
  "Enable \<in> set cs \<Longrightarrow> \<not> is_wakelock_enabled s \<Longrightarrow>
     execution_state_calls (perform_all cs s) \<noteq> []"
proof (induction cs arbitrary: s)
  case Nil
  then show ?case by simp
next
  case (Cons c cs)
  show ?case
  proof (cases c)
    case Enable
    then have "execution_state_calls (perform c s) \<noteq> []"
      using Cons.prems(2) by (simp add: EnableWakelock_calls)
    then show ?thesis by (simp add: calls_grow_perform_all)
  next
    case Disable
    with Cons show ?thesis by simp
  qed
qed

lemma perform_all_flag:
  "cs \<noteq> [] \<Longrightarrow> is_wakelock_enabled (perform_all cs s) \<longleftrightarrow> last cs = Enable"
proof (induction cs rule: rev_induct)
  case Nil
  then show ?case by simp
next
  case (snoc c cs)
  show ?case by (cases c) (simp_all add: perform_all_append)
qed

lemma perform_all_last_request:
  "last_request (perform_all cs initial_state) =
     (if Enable \<in> set cs then Some (request_of (last cs)) else None)"
proof (cases "Enable \<in> set cs")
  case False
  then have "perform_all cs initial_state = initial_state"
    by (simp add: perform_all_no_Enable initial_state_def)
  with False show ?thesis by (simp add: last_request_def initial_state_def)
next
  case True
  let ?s = "perform_all cs initial_state"
  from True have ne: "cs \<noteq> []" by auto
  have nonempty: "execution_state_calls ?s \<noteq> []"
    using True by (simp add: perform_all_some_Enable initial_state_def)
  have inv: "flag_tracks_requests ?s"
    by (simp add: flag_tracks_requests_perform_all flag_tracks_requests_initial)
  have flag: "is_wakelock_enabled ?s \<longleftrightarrow> last cs = Enable"
    using ne by (rule perform_all_flag)
  have "last_request ?s = Some (request_of (last cs))"
  proof (cases "last cs")
    case Enable
    with flag inv show ?thesis by (simp add: flag_tracks_requests_def)
  next
    case Disable
    with flag have "\<not> is_wakelock_enabled ?s" by simp
    with inv have "last_request ?s = None \<or> last_request ?s = Some ES_CONTINUOUS"
      by (simp add: flag_tracks_requests_def)
    moreover from nonempty have "last_request ?s \<noteq> None" by (simp add: last_request_def)
    ultimately show ?thesis using Disable by simp
  qed
  with True show ?thesis by simp
qed


lemma calls_step_range:
  "set (execution_state_calls s) \<subseteq> A \<Longrightarrow>
   ES_CONTINUOUS OR ES_DISPLAY_REQUIRED OR ES_SYSTEM_REQUIRED \<in> A \<Longrightarrow> ES_CONTINUOUS \<in> A \<Longrightarrow>
   set (execution_state_calls (step e s)) \<subseteq> A"
  using step_cases [of e s]
  by (auto simp: EnableWakelock_calls DisableWakelock_calls split: if_splits)

lemma calls_run_range:
  "set (execution_state_calls s) \<subseteq> A \<Longrightarrow>
   ES_CONTINUOUS OR ES_DISPLAY_REQUIRED OR ES_SYSTEM_REQUIRED \<in> A \<Longrightarrow> ES_CONTINUOUS \<in> A \<Longrightarrow>
   set (execution_state_calls (run es s)) \<subseteq> A"
  by (induction es arbitrary: s) (simp_all add: calls_step_range)

lemma continuous_flag_nonzero: "ES_CONTINUOUS \<noteq> 0"
  by (simp add: ES_CONTINUOUS_def)

lemma enable_request_continuous:
  "(ES_CONTINUOUS OR ES_DISPLAY_REQUIRED OR ES_SYSTEM_REQUIRED) AND ES_CONTINUOUS = ES_CONTINUOUS"
  by (simp add: ES_CONTINUOUS_def ES_DISPLAY_REQUIRED_def ES_SYSTEM_REQUIRED_def)

lemma flag_iff_sleep_prevention:
  "flag_tracks_requests s \<Longrightarrow>
   is_wakelock_enabled s \<longleftrightarrow> (\<exists>r. last_request s = Some r \<and> requests_sleep_prevention r)"
  by (auto simp: flag_tracks_requests_def enable_request_prevents_sleep
      disable_request_allows_sleep split: if_splits)

lemma no_Enable_last_Disable: "cs \<noteq> [] \<Longrightarrow> Enable \<notin> set cs \<Longrightarrow> last cs = Disable"
proof -
  assume "cs \<noteq> []" and none: "Enable \<notin> set cs"
  then have "last cs \<in> set cs" by simp
  with none have "last cs \<noteq> Enable" by auto
  then show ?thesis by (cases "last cs") simp_all
qed

lemma request_of_prevents_sleep: "requests_sleep_prevention (request_of c) \<longleftrightarrow> c = Enable"
  by (cases c) (simp_all add: enable_request_prevents_sleep disable_request_allows_sleep)

lemma perform_all_observable_request:
  "cs \<noteq> [] \<Longrightarrow> observable_request (perform_all cs initial_state) = request_of (last cs)"
  by (simp add: observable_request_def perform_all_last_request no_Enable_last_Disable)

lemma perform_all_prevention:
  "cs \<noteq> [] \<Longrightarrow>
     (\<exists>r. last_request (perform_all cs initial_state) = Some r \<and> requests_sleep_prevention r)
       \<longleftrightarrow> last cs = Enable"
  by (auto simp: perform_all_last_request request_of_prevents_sleep
      dest: no_Enable_last_Disable)

section \<open>The properties of the specification\<close>

text \<open>
  C1. Take any non-empty sequence \<open>cs\<close> of \<^verbatim>\<open>Enable()\<close>/\<^verbatim>\<open>Disable()\<close> calls
  from the initial state. The OS execution-state request observable after the sequence is
  the request that belongs to the last call of the sequence; said without a value for the
  state before the first request: a most recent request that asks for sleep prevention
  exists exactly when the last call is \<^verbatim>\<open>Enable()\<close>. In the log of OS calls, the
  most recent entry is the request of the last call as soon as the sequence has an
  \<^verbatim>\<open>Enable()\<close> in it, and the log is empty (the default state is in force) as long
  as it has none. Two \<^verbatim>\<open>Enable()\<close> calls in a row issue the OS call only once, and
  so do two \<^verbatim>\<open>Disable()\<close> calls in a row: the second call of the pair issues
  nothing, from any state and anywhere in a sequence.
\<close>

theorem toggle_sequence_requests:
  "(cs \<noteq> [] \<longrightarrow>
      observable_request (perform_all cs initial_state) = request_of (last cs)
      \<and> ((\<exists>r. last_request (perform_all cs initial_state) = Some r
                \<and> requests_sleep_prevention r) \<longleftrightarrow> last cs = Enable))
   \<and> last_request (perform_all cs initial_state) =
       (if Enable \<in> set cs then Some (request_of (last cs)) else None)
   \<and> perform_all (xs @ c # c # ys) s = perform_all (xs @ c # ys) s
   \<and> execution_state_calls (perform_all [c, c] s) = execution_state_calls (perform c s)
   \<and> execution_state_calls (perform_all [Enable, Enable] s) =
       execution_state_calls s @ (if is_wakelock_enabled s then [] else [request_of Enable])
   \<and> execution_state_calls (perform_all [Disable, Disable] s) =
       execution_state_calls s @ (if is_wakelock_enabled s then [request_of Disable] else [])"
proof -
  have "perform_all (xs @ c # c # ys) s = perform_all (xs @ c # ys) s"
    by (simp add: perform_all_append perform_twice)
  moreover have "execution_state_calls (perform_all [c, c] s) =
       execution_state_calls (perform c s)"
    by (simp add: perform_twice)
  moreover have "execution_state_calls (perform_all [Enable, Enable] s) =
       execution_state_calls s @ (if is_wakelock_enabled s then [] else [request_of Enable])"
    by (simp add: EnableWakelock_calls)
  moreover have "execution_state_calls (perform_all [Disable, Disable] s) =
       execution_state_calls s @ (if is_wakelock_enabled s then [request_of Disable] else [])"
    by (simp add: DisableWakelock_calls)
  ultimately show ?thesis
    using perform_all_last_request [of cs] perform_all_observable_request [of cs]
      perform_all_prevention [of cs]
    by blast
qed

theorem toggle_sequence_requests_witness:
  "observable_request (perform_all [Enable, Enable, Disable] initial_state) = ES_CONTINUOUS
   \<and> observable_request (perform_all [Disable] initial_state) = ES_CONTINUOUS
   \<and> observable_request (perform_all [Disable, Enable, Enable] initial_state) =
       ES_CONTINUOUS OR ES_DISPLAY_REQUIRED OR ES_SYSTEM_REQUIRED
   \<and> last_request (perform_all [Disable] initial_state) = None
   \<and> last_request (perform_all [Enable, Enable, Disable] initial_state) = Some ES_CONTINUOUS
   \<and> perform_all [Disable, Enable, Enable, Disable] initial_state =
       perform_all [Disable, Enable, Disable] initial_state
   \<and> execution_state_calls (perform_all [Enable, Enable] initial_state) =
       [ES_CONTINUOUS OR ES_DISPLAY_REQUIRED OR ES_SYSTEM_REQUIRED]
   \<and> execution_state_calls
        (perform_all [Disable, Disable] (perform_all [Enable] initial_state)) =
       [ES_CONTINUOUS OR ES_DISPLAY_REQUIRED OR ES_SYSTEM_REQUIRED, ES_CONTINUOUS]"
  using toggle_sequence_requests
          [where cs = "[Enable, Enable, Disable]" and xs = "[Disable]" and c = Enable
             and ys = "[Disable]" and s = initial_state]
        toggle_sequence_requests
          [where cs = "[Disable]" and xs = "[]" and c = Disable
             and ys = "[]" and s = "perform_all [Enable] initial_state"]
        toggle_sequence_requests
          [where cs = "[Disable, Enable, Enable]" and xs = "[]" and c = Enable
             and ys = "[]" and s = initial_state]
  by (simp add: initial_state_def EnableWakelock_calls DisableWakelock_calls)

text \<open>
  C2. \<^verbatim>\<open>EnableWakelock\<close>: when the flag is clear, exactly one request is added to the
  OS calls, the request \<^verbatim>\<open>ES_CONTINUOUS | ES_DISPLAY_REQUIRED | ES_SYSTEM_REQUIRED\<close>,
  and the flag is set afterwards; when the flag is set already, the state (flag and OS
  calls) stays as it is.
\<close>

theorem EnableWakelock_contract:
  "(\<not> is_wakelock_enabled s \<longrightarrow>
      execution_state_calls (EnableWakelock s) =
        execution_state_calls s @ [ES_CONTINUOUS OR ES_DISPLAY_REQUIRED OR ES_SYSTEM_REQUIRED]
      \<and> is_wakelock_enabled (EnableWakelock s))
   \<and> (is_wakelock_enabled s \<longrightarrow> EnableWakelock s = s)"
  by (simp add: EnableWakelock_calls)

theorem EnableWakelock_contract_witness:
  "\<not> is_wakelock_enabled initial_state
   \<and> execution_state_calls (EnableWakelock initial_state) = [0x80000003]
   \<and> is_wakelock_enabled (EnableWakelock initial_state)
   \<and> EnableWakelock (EnableWakelock initial_state) = EnableWakelock initial_state"
  using EnableWakelock_contract [of initial_state]
        EnableWakelock_contract [of "EnableWakelock initial_state"]
  by (simp add: initial_state_def enable_request_value)

text \<open>
  C3. \<^verbatim>\<open>DisableWakelock\<close>: when the flag is set, exactly one request is added to
  the OS calls, the request \<^verbatim>\<open>ES_CONTINUOUS\<close>, which carries neither the
  display-required nor the system-required flag, and the flag is clear afterwards; when
  the flag is clear already, the state (flag and OS calls) stays as it is.
\<close>

theorem DisableWakelock_contract:
  "(is_wakelock_enabled s \<longrightarrow>
      execution_state_calls (DisableWakelock s) = execution_state_calls s @ [ES_CONTINUOUS]
      \<and> \<not> is_wakelock_enabled (DisableWakelock s))
   \<and> (\<not> is_wakelock_enabled s \<longrightarrow> DisableWakelock s = s)
   \<and> ES_CONTINUOUS AND ES_DISPLAY_REQUIRED = 0
   \<and> ES_CONTINUOUS AND ES_SYSTEM_REQUIRED = 0"
  by (simp add: DisableWakelock_calls ES_CONTINUOUS_def ES_DISPLAY_REQUIRED_def
      ES_SYSTEM_REQUIRED_def)

theorem DisableWakelock_contract_witness:
  "is_wakelock_enabled (EnableWakelock initial_state)
   \<and> execution_state_calls (DisableWakelock (EnableWakelock initial_state)) =
       [0x80000003, 0x80000000]
   \<and> \<not> is_wakelock_enabled (DisableWakelock (EnableWakelock initial_state))
   \<and> \<not> is_wakelock_enabled initial_state
   \<and> DisableWakelock initial_state = initial_state"
  using DisableWakelock_contract [of "EnableWakelock initial_state"]
        DisableWakelock_contract [of initial_state]
  by (simp add: initial_state_def EnableWakelock_calls ES_CONTINUOUS_def
      ES_DISPLAY_REQUIRED_def ES_SYSTEM_REQUIRED_def)


text \<open>
  C4. \<^verbatim>\<open>HandleMethodCall\<close> dispatches on the method name alone. For
  \<^verbatim>\<open>"enableWindows"\<close> the new state is that of \<^verbatim>\<open>EnableWakelock\<close> and the reply
  is success with \<open>true\<close>; for \<^verbatim>\<open>"disableWindows"\<close> the new state is that of
  \<^verbatim>\<open>DisableWakelock\<close> and the reply is success with \<open>true\<close>; for every other
  name, in every state, the reply is "not implemented" and the state is untouched, which
  is neither what \<^verbatim>\<open>EnableWakelock\<close> does from a clear flag nor what
  \<^verbatim>\<open>DisableWakelock\<close> does from a set flag.
\<close>

theorem HandleMethodCall_dispatch:
  "(method_name c = ''enableWindows'' \<longrightarrow>
      HandleMethodCall c s = (Success (EncodableBool True), EnableWakelock s))
   \<and> (method_name c = ''disableWindows'' \<longrightarrow>
      HandleMethodCall c s = (Success (EncodableBool True), DisableWakelock s))
   \<and> (method_name c \<noteq> ''enableWindows'' \<and> method_name c \<noteq> ''disableWindows'' \<longrightarrow>
      HandleMethodCall c s = (NotImplemented, s)
      \<and> (\<not> is_wakelock_enabled s \<longrightarrow> snd (HandleMethodCall c s) \<noteq> EnableWakelock s)
      \<and> (is_wakelock_enabled s \<longrightarrow> snd (HandleMethodCall c s) \<noteq> DisableWakelock s))"
proof -
  have neq_enable: "s \<noteq> EnableWakelock s" if "\<not> is_wakelock_enabled s"
    using that by (metis EnableWakelock_flag)
  have neq_disable: "s \<noteq> DisableWakelock s" if "is_wakelock_enabled s"
    using that by (metis DisableWakelock_flag)
  show ?thesis
    using neq_enable neq_disable
    by (simp add: HandleMethodCall_def string_compare_eq_0_iff)
qed

theorem HandleMethodCall_dispatch_witness:
  "HandleMethodCall \<lparr>method_name = ''enableWindows'', arguments = None\<rparr> initial_state =
     (Success (EncodableBool True),
      \<lparr>is_wakelock_enabled = True, execution_state_calls = [0x80000003]\<rparr>)
   \<and> HandleMethodCall \<lparr>method_name = ''disableWindows'', arguments = None\<rparr>
        \<lparr>is_wakelock_enabled = True, execution_state_calls = [0x80000003]\<rparr> =
     (Success (EncodableBool True),
      \<lparr>is_wakelock_enabled = False, execution_state_calls = [0x80000003, 0x80000000]\<rparr>)
   \<and> HandleMethodCall \<lparr>method_name = ''enablewindows'', arguments = None\<rparr> initial_state =
     (NotImplemented, initial_state)
   \<and> HandleMethodCall \<lparr>method_name = ''disableWindows2'', arguments = None\<rparr>
        \<lparr>is_wakelock_enabled = True, execution_state_calls = [0x80000003]\<rparr> =
     (NotImplemented, \<lparr>is_wakelock_enabled = True, execution_state_calls = [0x80000003]\<rparr>)"
  using HandleMethodCall_dispatch
          [of "\<lparr>method_name = ''enableWindows'', arguments = None\<rparr>" initial_state]
        HandleMethodCall_dispatch
          [of "\<lparr>method_name = ''disableWindows'', arguments = None\<rparr>"
              "\<lparr>is_wakelock_enabled = True, execution_state_calls = [0x80000003]\<rparr>"]
        HandleMethodCall_dispatch
          [of "\<lparr>method_name = ''enablewindows'', arguments = None\<rparr>" initial_state]
        HandleMethodCall_dispatch
          [of "\<lparr>method_name = ''disableWindows2'', arguments = None\<rparr>"
              "\<lparr>is_wakelock_enabled = True, execution_state_calls = [0x80000003]\<rparr>"]
  by (simp add: initial_state_def EnableWakelock_def DisableWakelock_def
      SetThreadExecutionState_def ES_CONTINUOUS_def ES_DISPLAY_REQUIRED_def
      ES_SYSTEM_REQUIRED_def)

text \<open>
  C7. In every state, a method call whose name is neither \<^verbatim>\<open>"enableWindows"\<close> nor
  \<^verbatim>\<open>"disableWindows"\<close> (such as \<^verbatim>\<open>"foo"\<close>) is answered "not implemented",
  leaves the flag as it was and issues no OS call.
\<close>

theorem unknown_method_frame:
  "method_name c \<noteq> ''enableWindows'' \<Longrightarrow> method_name c \<noteq> ''disableWindows'' \<Longrightarrow>
     fst (HandleMethodCall c s) = NotImplemented
     \<and> is_wakelock_enabled (snd (HandleMethodCall c s)) = is_wakelock_enabled s
     \<and> execution_state_calls (snd (HandleMethodCall c s)) = execution_state_calls s"
  by (simp add: HandleMethodCall_def string_compare_eq_0_iff)

theorem unknown_method_frame_witness:
  "fst (HandleMethodCall \<lparr>method_name = ''foo'', arguments = None\<rparr> initial_state)
     = NotImplemented
   \<and> \<not> is_wakelock_enabled
         (snd (HandleMethodCall \<lparr>method_name = ''foo'', arguments = None\<rparr> initial_state))
   \<and> execution_state_calls
         (snd (HandleMethodCall \<lparr>method_name = ''foo'', arguments = None\<rparr> initial_state)) = []
   \<and> fst (HandleMethodCall \<lparr>method_name = ''foo'', arguments = None\<rparr>
             (EnableWakelock initial_state)) = NotImplemented
   \<and> is_wakelock_enabled
         (snd (HandleMethodCall \<lparr>method_name = ''foo'', arguments = None\<rparr>
                 (EnableWakelock initial_state)))
   \<and> execution_state_calls
         (snd (HandleMethodCall \<lparr>method_name = ''foo'', arguments = None\<rparr>
                 (EnableWakelock initial_state))) = [0x80000003]"
  using unknown_method_frame
          [of "\<lparr>method_name = ''foo'', arguments = None\<rparr>" initial_state]
        unknown_method_frame
          [of "\<lparr>method_name = ''foo'', arguments = None\<rparr>" "EnableWakelock initial_state"]
  by (simp add: initial_state_def EnableWakelock_calls enable_request_value)

text \<open>
  C8. The handler never looks at the arguments of the call: two calls with the same
  method name give the same reply and the same new state from the same state, whatever
  their arguments (present or absent). Reply, new flag and the OS calls issued depend on
  the state through the flag only.
\<close>

theorem HandleMethodCall_ignores_arguments:
  "method_name c1 = method_name c2 \<Longrightarrow> is_wakelock_enabled s1 = is_wakelock_enabled s2 \<Longrightarrow>
     HandleMethodCall c1 s1 = HandleMethodCall c2 s1
     \<and> fst (HandleMethodCall c1 s1) = fst (HandleMethodCall c2 s2)
     \<and> is_wakelock_enabled (snd (HandleMethodCall c1 s1)) =
         is_wakelock_enabled (snd (HandleMethodCall c2 s2))
     \<and> drop (length (execution_state_calls s1))
          (execution_state_calls (snd (HandleMethodCall c1 s1))) =
       drop (length (execution_state_calls s2))
          (execution_state_calls (snd (HandleMethodCall c2 s2)))"
  by (simp add: HandleMethodCall_def EnableWakelock_calls DisableWakelock_calls)

theorem HandleMethodCall_ignores_arguments_witness:
  "HandleMethodCall \<lparr>method_name = ''enableWindows'', arguments = None\<rparr> initial_state =
   HandleMethodCall
     \<lparr>method_name = ''enableWindows'',
      arguments = Some (EncodableList [EncodableBool False, EncodableString ''x''])\<rparr>
     initial_state
   \<and> fst (HandleMethodCall \<lparr>method_name = ''enableWindows'', arguments = None\<rparr>
             initial_state) = Success (EncodableBool True)"
  using HandleMethodCall_ignores_arguments
          [of "\<lparr>method_name = ''enableWindows'', arguments = None\<rparr>"
              "\<lparr>method_name = ''enableWindows'',
                arguments = Some (EncodableList [EncodableBool False, EncodableString ''x''])\<rparr>"
              initial_state initial_state]
  by (simp add: HandleMethodCall_def)

text \<open>
  C9. Destroying the plugin while the flag is clear issues no OS call and leaves the flag
  clear: the state is unchanged.
\<close>

theorem destructor_released_noop:
  "\<not> is_wakelock_enabled s \<Longrightarrow>
     WakelockPlugin_destructor s = s
     \<and> execution_state_calls (WakelockPlugin_destructor s) = execution_state_calls s
     \<and> \<not> is_wakelock_enabled (WakelockPlugin_destructor s)"
  by (simp add: WakelockPlugin_destructor_def)

theorem destructor_released_noop_witness:
  "\<not> is_wakelock_enabled initial_state
   \<and> WakelockPlugin_destructor initial_state = initial_state
   \<and> execution_state_calls (WakelockPlugin_destructor initial_state) = []
   \<and> \<not> is_wakelock_enabled
         (run [Request \<lparr>method_name = ''enableWindows'', arguments = None\<rparr>,
               Request \<lparr>method_name = ''disableWindows'', arguments = None\<rparr>] initial_state)
   \<and> execution_state_calls (WakelockPlugin_destructor
         (run [Request \<lparr>method_name = ''enableWindows'', arguments = None\<rparr>,
               Request \<lparr>method_name = ''disableWindows'', arguments = None\<rparr>] initial_state))
       = [0x80000003, 0x80000000]"
  using destructor_released_noop [of initial_state]
        destructor_released_noop
          [of "run [Request \<lparr>method_name = ''enableWindows'', arguments = None\<rparr>,
               Request \<lparr>method_name = ''disableWindows'', arguments = None\<rparr>] initial_state"]
  by (simp add: initial_state_def HandleMethodCall_state EnableWakelock_calls
      DisableWakelock_calls ES_CONTINUOUS_def ES_DISPLAY_REQUIRED_def ES_SYSTEM_REQUIRED_def)


text \<open>
  C5. The destructor runs \<^verbatim>\<open>DisableWakelock\<close> whatever the state. The flag is clear
  afterwards; when the flag was set, exactly one request, \<^verbatim>\<open>ES_CONTINUOUS\<close>, is
  added to the OS calls. After the destructor has run in a state the process can reach,
  the most recent OS request (if there is one) does not ask for sleep prevention.
\<close>

theorem destructor_releases:
  "WakelockPlugin_destructor s = DisableWakelock s
   \<and> \<not> is_wakelock_enabled (WakelockPlugin_destructor s)
   \<and> (is_wakelock_enabled s \<longrightarrow>
        execution_state_calls (WakelockPlugin_destructor s) =
          execution_state_calls s @ [ES_CONTINUOUS])
   \<and> (\<forall>r. last_request (WakelockPlugin_destructor (run es initial_state)) = Some r \<longrightarrow>
          \<not> requests_sleep_prevention r)"
proof -
  let ?t = "WakelockPlugin_destructor (run es initial_state)"
  have "flag_tracks_requests (run es initial_state)"
    by (simp add: flag_tracks_requests_run flag_tracks_requests_initial)
  then have inv: "flag_tracks_requests ?t"
    by (simp add: WakelockPlugin_destructor_def flag_tracks_requests_Disable)
  have "\<not> is_wakelock_enabled ?t"
    by (simp add: WakelockPlugin_destructor_def)
  with inv have "\<forall>r. last_request ?t = Some r \<longrightarrow> \<not> requests_sleep_prevention r"
    by (simp add: flag_iff_sleep_prevention)
  then show ?thesis
    by (simp add: WakelockPlugin_destructor_def DisableWakelock_calls)
qed

theorem destructor_releases_witness:
  "is_wakelock_enabled (EnableWakelock initial_state)
   \<and> execution_state_calls (WakelockPlugin_destructor (EnableWakelock initial_state)) =
       [0x80000003, 0x80000000]
   \<and> \<not> is_wakelock_enabled (WakelockPlugin_destructor (EnableWakelock initial_state))
   \<and> last_request (WakelockPlugin_destructor
        (run [Request \<lparr>method_name = ''enableWindows'', arguments = None\<rparr>] initial_state)) =
       Some 0x80000000
   \<and> \<not> requests_sleep_prevention 0x80000000"
  using destructor_releases
          [of "EnableWakelock initial_state"
              "[Request \<lparr>method_name = ''enableWindows'', arguments = None\<rparr>]"]
  by (simp add: initial_state_def HandleMethodCall_state EnableWakelock_calls
      DisableWakelock_calls WakelockPlugin_destructor_def last_request_def
      ES_CONTINUOUS_def ES_DISPLAY_REQUIRED_def ES_SYSTEM_REQUIRED_def)

text \<open>
  C6. The flag is clear at process start, when no OS call has been issued yet. An event
  (a method call delivered by the host, the destruction of the plugin) that changes the
  flag does so as \<^verbatim>\<open>EnableWakelock\<close> or as \<^verbatim>\<open>DisableWakelock\<close>. In every
  state the process can reach, the flag is set exactly when the most recent OS request
  asked for sleep prevention.
\<close>

theorem flag_reflects_last_request:
  "\<not> is_wakelock_enabled initial_state
   \<and> execution_state_calls initial_state = []
   \<and> (is_wakelock_enabled (step e s) \<noteq> is_wakelock_enabled s \<longrightarrow>
        step e s = EnableWakelock s \<or> step e s = DisableWakelock s)
   \<and> (is_wakelock_enabled (run es initial_state) \<longleftrightarrow>
        (\<exists>r. last_request (run es initial_state) = Some r \<and> requests_sleep_prevention r))"
proof -
  have "flag_tracks_requests (run es initial_state)"
    by (simp add: flag_tracks_requests_run flag_tracks_requests_initial)
  then have "is_wakelock_enabled (run es initial_state) \<longleftrightarrow>
        (\<exists>r. last_request (run es initial_state) = Some r \<and> requests_sleep_prevention r)"
    by (rule flag_iff_sleep_prevention)
  moreover have "is_wakelock_enabled (step e s) \<noteq> is_wakelock_enabled s \<longrightarrow>
        step e s = EnableWakelock s \<or> step e s = DisableWakelock s"
    using step_cases [of e s] by auto
  ultimately show ?thesis
    by (simp add: initial_state_def)
qed

theorem flag_reflects_last_request_witness:
  "is_wakelock_enabled
     (step (Request \<lparr>method_name = ''enableWindows'', arguments = None\<rparr>) initial_state) \<noteq>
   is_wakelock_enabled initial_state
   \<and> step (Request \<lparr>method_name = ''enableWindows'', arguments = None\<rparr>) initial_state =
       EnableWakelock initial_state
   \<and> is_wakelock_enabled
       (run [Request \<lparr>method_name = ''enableWindows'', arguments = None\<rparr>] initial_state)
   \<and> last_request
       (run [Request \<lparr>method_name = ''enableWindows'', arguments = None\<rparr>] initial_state) =
       Some 0x80000003
   \<and> requests_sleep_prevention 0x80000003"
  using flag_reflects_last_request
          [of "Request \<lparr>method_name = ''enableWindows'', arguments = None\<rparr>" initial_state
              "[Request \<lparr>method_name = ''enableWindows'', arguments = None\<rparr>]"]
  by (simp add: initial_state_def HandleMethodCall_state EnableWakelock_calls
      last_request_def ES_CONTINUOUS_def ES_DISPLAY_REQUIRED_def ES_SYSTEM_REQUIRED_def)

text \<open>
  C10. Whatever the host does, every request the process has issued to the OS carries
  \<^verbatim>\<open>ES_CONTINUOUS\<close> (a flag that is not zero), and is one of two requests:
  \<^verbatim>\<open>ES_CONTINUOUS | ES_DISPLAY_REQUIRED | ES_SYSTEM_REQUIRED\<close> or
  \<^verbatim>\<open>ES_CONTINUOUS\<close> alone.
\<close>

theorem every_request_continuous:
  "\<forall>r \<in> set (execution_state_calls (run es initial_state)).
      r AND ES_CONTINUOUS = ES_CONTINUOUS \<and> ES_CONTINUOUS \<noteq> 0
      \<and> (r = ES_CONTINUOUS OR ES_DISPLAY_REQUIRED OR ES_SYSTEM_REQUIRED \<or> r = ES_CONTINUOUS)"
proof
  fix r
  assume r: "r \<in> set (execution_state_calls (run es initial_state))"
  have "set (execution_state_calls (run es initial_state)) \<subseteq>
          {ES_CONTINUOUS OR ES_DISPLAY_REQUIRED OR ES_SYSTEM_REQUIRED, ES_CONTINUOUS}"
    by (rule calls_run_range) (simp_all add: initial_state_def)
  with r have "r = ES_CONTINUOUS OR ES_DISPLAY_REQUIRED OR ES_SYSTEM_REQUIRED \<or> r = ES_CONTINUOUS"
    by auto
  then show "r AND ES_CONTINUOUS = ES_CONTINUOUS \<and> ES_CONTINUOUS \<noteq> 0
      \<and> (r = ES_CONTINUOUS OR ES_DISPLAY_REQUIRED OR ES_SYSTEM_REQUIRED \<or> r = ES_CONTINUOUS)"
    using enable_request_continuous continuous_flag_nonzero by auto
qed

theorem every_request_continuous_witness:
  "execution_state_calls
     (run [Request \<lparr>method_name = ''enableWindows'', arguments = None\<rparr>, Destroy]
        initial_state) = [0x80000003, 0x80000000]
   \<and> (0x80000003 :: EXECUTION_STATE) AND ES_CONTINUOUS = ES_CONTINUOUS
   \<and> (0x80000000 :: EXECUTION_STATE) AND ES_CONTINUOUS = ES_CONTINUOUS
   \<and> ES_CONTINUOUS \<noteq> 0"
  using every_request_continuous
          [of "[Request \<lparr>method_name = ''enableWindows'', arguments = None\<rparr>, Destroy]"]
  by (simp add: initial_state_def HandleMethodCall_state EnableWakelock_calls
      DisableWakelock_calls WakelockPlugin_destructor_def
      ES_CONTINUOUS_def ES_DISPLAY_REQUIRED_def ES_SYSTEM_REQUIRED_def)

end
